theory Spec2Isabelle
  imports Complex_Main
begin

section \<open>Python floats\<close>

text \<open>
  An amount is a Python \<open>float\<close>. The model keeps the three special values apart from
  the finite ones, because the comparisons of the program behave differently on them:
  every ordering comparison with \<open>NaN\<close> is false. A finite value is kept as the exact
  real it denotes; binary rounding, overflow of a huge literal to infinity and underflow
  of a tiny one to zero are not modelled.
\<close>

datatype pyfloat = Fin real | PosInf | NegInf | NaN

text \<open>\<open>a <= b\<close> on floats.\<close>

fun fle :: "pyfloat \<Rightarrow> pyfloat \<Rightarrow> bool" where
  "fle NaN b = False"
| "fle a NaN = False"
| "fle (Fin x) (Fin y) = (x \<le> y)"
| "fle NegInf b = True"
| "fle a PosInf = True"
| "fle a b = False"

text \<open>\<open>a > b\<close> on floats.\<close>

fun fgt :: "pyfloat \<Rightarrow> pyfloat \<Rightarrow> bool" where
  "fgt NaN b = False"
| "fgt a NaN = False"
| "fgt (Fin x) (Fin y) = (x > y)"
| "fgt a PosInf = False"
| "fgt NegInf b = False"
| "fgt a b = True"

text \<open>\<open>a + b\<close> on floats.\<close>

fun fadd :: "pyfloat \<Rightarrow> pyfloat \<Rightarrow> pyfloat" where
  "fadd NaN b = NaN"
| "fadd a NaN = NaN"
| "fadd (Fin x) (Fin y) = Fin (x + y)"
| "fadd PosInf NegInf = NaN"
| "fadd NegInf PosInf = NaN"
| "fadd PosInf b = PosInf"
| "fadd a PosInf = PosInf"
| "fadd NegInf b = NegInf"
| "fadd a NegInf = NegInf"

text \<open>The builtin \<open>sum\<close>: a left fold over the items that starts from \<open>0\<close>.\<close>

definition py_sum :: "pyfloat list \<Rightarrow> pyfloat" where
  "py_sum xs = foldl fadd (Fin 0) xs"

subsection \<open>The builtin \<open>float\<close> on a string\<close>

text \<open>
  \<open>float(s)\<close> strips white space at both ends, reads an optional sign and then either
  \<open>nan\<close>, \<open>inf\<close> or \<open>infinity\<close> (in any letter case) or a decimal literal: digits with an
  optional fraction and an optional exponent, where single underscores may separate
  digits. Anything else raises \<open>ValueError\<close>, which is \<open>None\<close> here. Strings are ASCII.
\<close>

definition is_space :: "char \<Rightarrow> bool" where
  "is_space c = (let n = (of_char c :: nat) in (9 \<le> n \<and> n \<le> 13) \<or> (28 \<le> n \<and> n \<le> 32))"

definition is_digit :: "char \<Rightarrow> bool" where
  "is_digit c = (let n = (of_char c :: nat) in 48 \<le> n \<and> n \<le> 57)"

definition digit_val :: "char \<Rightarrow> nat" where
  "digit_val c = of_char c - 48"

definition lower :: "char \<Rightarrow> char" where
  "lower c = (let n = (of_char c :: nat) in if 65 \<le> n \<and> n \<le> 90 then char_of (n + 32) else c)"

definition strip :: "string \<Rightarrow> string" where
  "strip s = rev (dropWhile is_space (rev (dropWhile is_space s)))"

text \<open>A run of digits in which single underscores stand between digits only.\<close>

fun digitpart :: "string \<Rightarrow> bool" where
  "digitpart [] = False"
| "digitpart [c] = is_digit c"
| "digitpart (c # d # cs) =
     (is_digit c \<and> (if d = CHR ''_'' then digitpart cs else digitpart (d # cs)))"

definition digits_only :: "string \<Rightarrow> string" where
  "digits_only s = filter (\<lambda>c. c \<noteq> CHR ''_'') s"

definition digits_val :: "string \<Rightarrow> nat" where
  "digits_val s = foldl (\<lambda>acc c. 10 * acc + digit_val c) 0 (digits_only s)"

definition parse_mantissa :: "string \<Rightarrow> real option" where
  "parse_mantissa m =
     (let ip = takeWhile (\<lambda>c. c \<noteq> CHR ''.'') m;
          r = dropWhile (\<lambda>c. c \<noteq> CHR ''.'') m
      in case r of
           [] \<Rightarrow> if digitpart ip then Some (real (digits_val ip)) else None
         | dot # fp \<Rightarrow>
             if (ip = [] \<or> digitpart ip) \<and> (fp = [] \<or> digitpart fp) \<and> \<not> (ip = [] \<and> fp = [])
             then Some (real (digits_val ip)
                        + real (digits_val fp) / 10 ^ length (digits_only fp))
             else None)"

definition is_exp_mark :: "char \<Rightarrow> bool" where
  "is_exp_mark c = (c = CHR ''e'' \<or> c = CHR ''E'')"

definition parse_number :: "string \<Rightarrow> real option" where
  "parse_number s =
     (let m = takeWhile (\<lambda>c. \<not> is_exp_mark c) s;
          r = dropWhile (\<lambda>c. \<not> is_exp_mark c) s
      in case parse_mantissa m of
           None \<Rightarrow> None
         | Some v \<Rightarrow>
            (case r of
               [] \<Rightarrow> Some v
             | mark # ex \<Rightarrow>
                (let neg = (ex \<noteq> [] \<and> hd ex = CHR ''-'');
                     ds = (if ex \<noteq> [] \<and> (hd ex = CHR ''-'' \<or> hd ex = CHR ''+'') then tl ex else ex)
                 in if digitpart ds
                    then Some (if neg then v / 10 ^ digits_val ds else v * 10 ^ digits_val ds)
                    else None)))"

definition py_float :: "string \<Rightarrow> pyfloat option" where
  "py_float s =
     (let t = strip s;
          neg = (t \<noteq> [] \<and> hd t = CHR ''-'');
          body = (if t \<noteq> [] \<and> (hd t = CHR ''-'' \<or> hd t = CHR ''+'') then tl t else t);
          lb = map lower body
      in if lb = ''nan'' then Some NaN
         else if lb = ''inf'' \<or> lb = ''infinity'' then Some (if neg then NegInf else PosInf)
         else (case parse_number body of
                 None \<Rightarrow> None
               | Some v \<Rightarrow> Some (Fin (if neg then - v else v))))"

section \<open>Dates\<close>

text \<open>
  \<open>datetime.strptime(s, '%Y-%m-%d')\<close>: four digits, a dash, a month \<open>1[0-2]|0[1-9]|[1-9]\<close>,
  a dash, a day \<open>3[01]|[12]\d|0[1-9]|[1-9]| [1-9]\<close> and nothing after it; the date must exist
  in the calendar. Every failure raises \<open>ValueError\<close>, which is \<open>None\<close> here.
\<close>

definition is_nonzero_digit :: "char \<Rightarrow> bool" where
  "is_nonzero_digit c = (let n = (of_char c :: nat) in 49 \<le> n \<and> n \<le> 57)"

fun month_prefix :: "string \<Rightarrow> (nat \<times> string) option" where
  "month_prefix (a # b # r) =
     (if a = CHR ''1'' \<and> (b = CHR ''0'' \<or> b = CHR ''1'' \<or> b = CHR ''2'')
        then Some (10 + digit_val b, r)
      else if a = CHR ''0'' \<and> is_nonzero_digit b then Some (digit_val b, r)
      else if is_nonzero_digit a then Some (digit_val a, b # r)
      else None)"
| "month_prefix [a] = (if is_nonzero_digit a then Some (digit_val a, []) else None)"
| "month_prefix [] = None"

fun day_prefix :: "string \<Rightarrow> (nat \<times> string) option" where
  "day_prefix (a # b # r) =
     (if a = CHR ''3'' \<and> (b = CHR ''0'' \<or> b = CHR ''1'') then Some (30 + digit_val b, r)
      else if (a = CHR ''1'' \<or> a = CHR ''2'') \<and> is_digit b
        then Some (10 * digit_val a + digit_val b, r)
      else if a = CHR ''0'' \<and> is_nonzero_digit b then Some (digit_val b, r)
      else if is_nonzero_digit a then Some (digit_val a, b # r)
      else if a = CHR '' '' \<and> is_nonzero_digit b then Some (digit_val b, r)
      else None)"
| "day_prefix [a] = (if is_nonzero_digit a then Some (digit_val a, []) else None)"
| "day_prefix [] = None"

definition leap_year :: "nat \<Rightarrow> bool" where
  "leap_year y = (y mod 4 = 0 \<and> (y mod 100 \<noteq> 0 \<or> y mod 400 = 0))"

definition days_in_month :: "nat \<Rightarrow> nat \<Rightarrow> nat" where
  "days_in_month y m =
     (if m = 2 then (if leap_year y then 29 else 28)
      else if m = 4 \<or> m = 6 \<or> m = 9 \<or> m = 11 then 30 else 31)"

text \<open>The result is (year, month, day).\<close>

definition strptime_ymd :: "string \<Rightarrow> (nat \<times> nat \<times> nat) option" where
  "strptime_ymd s =
     (case s of
        y1 # y2 # y3 # y4 # d1 # rest \<Rightarrow>
          if is_digit y1 \<and> is_digit y2 \<and> is_digit y3 \<and> is_digit y4 \<and> d1 = CHR ''-''
          then (case month_prefix rest of
                  Some (m, d2 # rest2) \<Rightarrow>
                    if d2 = CHR ''-''
                    then (case day_prefix rest2 of
                            Some (d, []) \<Rightarrow>
                              (let y = digits_val [y1, y2, y3, y4]
                               in if 1 \<le> y \<and> d \<le> days_in_month y m then Some (y, m, d)
                                  else None)
                          | _ \<Rightarrow> None)
                    else None
                | _ \<Rightarrow> None)
          else None
      | _ \<Rightarrow> None)"

section \<open>The expense store\<close>

text \<open>One record of the collection; \<open>id_num\<close> is the field \<open>id\<close>.\<close>

record expense =
  id_num :: int
  date :: string
  description :: string
  amount :: pyfloat
  category :: string

text \<open>
  The data file \<open>expenses.json\<close>: it may not exist, it may hold something that is not
  JSON, or it holds the list of records.
\<close>

datatype data_file = Absent | Corrupt | Content "expense list"

datatype error =
    InvalidAmount
  | InvalidCategory string
  | NotFound int
  | InvalidMonth

type_synonym row = "int \<times> string \<times> string \<times> string \<times> pyfloat"

text \<open>
  What a command prints. A table is kept as its rows (ID, Date, Category, Description,
  Amount) and a total as the float that is formatted; a month is kept as its number.
\<close>

datatype outcome =
    Added int
  | Updated int
  | Deleted
  | Failed error
  | NoExpenses
  | NoExpensesInCategory string
  | Table "row list"
  | TotalMonthCategory int string pyfloat
  | TotalMonth int pyfloat
  | TotalCategory string pyfloat
  | TotalAll pyfloat "(string \<times> pyfloat) list"

definition CATEGORIES :: "string list" where
  "CATEGORIES = [''Food'', ''Transportation'', ''Housing'', ''Utilities'',
                 ''Entertainment'', ''Shopping'', ''Healthcare'', ''Other'']"

definition load_expenses :: "data_file \<Rightarrow> expense list" where
  "load_expenses f = (case f of Content xs \<Rightarrow> xs | Absent \<Rightarrow> [] | Corrupt \<Rightarrow> [])"

definition save_expenses :: "expense list \<Rightarrow> data_file" where
  "save_expenses expenses = Content expenses"

definition get_next_id :: "expense list \<Rightarrow> int" where
  "get_next_id expenses =
     (case expenses of
        [] \<Rightarrow> 1
      | e # es \<Rightarrow> foldl max (id_num e) (map id_num es) + 1)"

definition validate_amount :: "string \<Rightarrow> error + pyfloat" where
  "validate_amount raw =
     (case py_float raw of
        None \<Rightarrow> Inl InvalidAmount
      | Some a \<Rightarrow> if fle a (Fin 0) then Inl InvalidAmount else Inr a)"

fun join :: "string \<Rightarrow> string list \<Rightarrow> string" where
  "join sep [] = []"
| "join sep [x] = x"
| "join sep (x # y # ys) = x @ sep @ join sep (y # ys)"

definition validate_category :: "string \<Rightarrow> error + string" where
  "validate_category c =
     (if c \<notin> set CATEGORIES
      then Inl (InvalidCategory (''Invalid category. Available categories: '' @ join '', '' CATEGORIES))
      else Inr c)"

text \<open>\<open>today\<close> is \<open>datetime.now().strftime('%Y-%m-%d')\<close>, read from the clock.\<close>

definition add_expense ::
  "string \<Rightarrow> data_file \<Rightarrow> string \<Rightarrow> string \<Rightarrow> string \<Rightarrow> outcome \<times> data_file" where
  "add_expense today f descr raw_amount raw_category =
     (case validate_amount raw_amount of
        Inl e \<Rightarrow> (Failed e, f)
      | Inr a \<Rightarrow>
         (case validate_category raw_category of
            Inl e \<Rightarrow> (Failed e, f)
          | Inr c \<Rightarrow>
             (let expenses = load_expenses f;
                  new_expense = \<lparr>id_num = get_next_id expenses, date = today,
                                 description = descr, amount = a, category = c\<rparr>
              in (Added (id_num new_expense), save_expenses (expenses @ [new_expense])))))"

text \<open>
  The body of the loop of \<open>update_expense\<close> at the record found: the fields are assigned
  in the order description, amount, category, and a failed validation leaves the loop
  through the exception.
\<close>

definition update_fields ::
  "expense \<Rightarrow> string option \<Rightarrow> string option \<Rightarrow> string option \<Rightarrow> error + expense" where
  "update_fields e descr raw_amount raw_category =
     (let e1 = (case descr of None \<Rightarrow> e | Some d \<Rightarrow> e\<lparr>description := d\<rparr>)
      in case (case raw_amount of
                 None \<Rightarrow> Inr e1
               | Some r \<Rightarrow> (case validate_amount r of
                              Inl err \<Rightarrow> Inl err
                            | Inr a \<Rightarrow> Inr (e1\<lparr>amount := a\<rparr>))) of
           Inl err \<Rightarrow> Inl err
         | Inr e2 \<Rightarrow>
            (case raw_category of
               None \<Rightarrow> Inr e2
             | Some r \<Rightarrow> (case validate_category r of
                            Inl err \<Rightarrow> Inl err
                          | Inr c \<Rightarrow> Inr (e2\<lparr>category := c\<rparr>))))"

fun update_loop ::
  "expense list \<Rightarrow> int \<Rightarrow> string option \<Rightarrow> string option \<Rightarrow> string option
     \<Rightarrow> error + expense list" where
  "update_loop [] expense_id descr raw_amount raw_category = Inl (NotFound expense_id)"
| "update_loop (e # es) expense_id descr raw_amount raw_category =
     (if id_num e = expense_id
      then (case update_fields e descr raw_amount raw_category of
              Inl err \<Rightarrow> Inl err
            | Inr e' \<Rightarrow> Inr (e' # es))
      else (case update_loop es expense_id descr raw_amount raw_category of
              Inl err \<Rightarrow> Inl err
            | Inr es' \<Rightarrow> Inr (e # es')))"

definition update_expense ::
  "data_file \<Rightarrow> int \<Rightarrow> string option \<Rightarrow> string option \<Rightarrow> string option
     \<Rightarrow> outcome \<times> data_file" where
  "update_expense f expense_id descr raw_amount raw_category =
     (case update_loop (load_expenses f) expense_id descr raw_amount raw_category of
        Inl err \<Rightarrow> (Failed err, f)
      | Inr expenses \<Rightarrow> (Updated expense_id, save_expenses expenses))"

text \<open>The test \<open>if category:\<close> holds for a string that is given and not empty.\<close>

definition given :: "string option \<Rightarrow> bool" where
  "given c = (case c of None \<Rightarrow> False | Some s \<Rightarrow> s \<noteq> [])"

definition table_rows :: "expense list \<Rightarrow> row list" where
  "table_rows expenses =
     map (\<lambda>e. (id_num e, date e, category e, description e, amount e)) expenses"

text \<open>
  The category filter that \<open>list_expenses\<close> and \<open>get_summary\<close> share: \<open>Inl\<close> is the
  message printed before the early return.
\<close>

definition filter_category :: "expense list \<Rightarrow> string \<Rightarrow> outcome + expense list" where
  "filter_category expenses c =
     (case validate_category c of
        Inl err \<Rightarrow> Inl (Failed err)
      | Inr c' \<Rightarrow>
         (let kept = filter (\<lambda>e. category e = c) expenses
          in if kept = [] then Inl (NoExpensesInCategory c) else Inr kept))"

definition list_expenses :: "data_file \<Rightarrow> string option \<Rightarrow> outcome" where
  "list_expenses f cat =
     (let expenses = load_expenses f
      in if expenses = [] then NoExpenses
         else if given cat
           then (case filter_category expenses (the cat) of
                   Inl out \<Rightarrow> out
                 | Inr kept \<Rightarrow> Table (table_rows kept))
           else Table (table_rows expenses))"

text \<open>
  The month filter of \<open>get_summary\<close>: the comprehension parses the date of each record in
  turn, so a date that does not parse raises \<open>ValueError\<close> (\<open>None\<close>) there.
\<close>

fun filter_month :: "nat \<Rightarrow> int \<Rightarrow> expense list \<Rightarrow> expense list option" where
  "filter_month current_year m [] = Some []"
| "filter_month current_year m (e # es) =
     (case strptime_ymd (date e) of
        None \<Rightarrow> None
      | Some (y, mo, d) \<Rightarrow>
         (case filter_month current_year m es of
            None \<Rightarrow> None
          | Some kept \<Rightarrow>
              Some (if int mo = m \<and> y = current_year then e # kept else kept)))"

definition breakdown :: "expense list \<Rightarrow> (string \<times> pyfloat) list" where
  "breakdown expenses =
     filter (\<lambda>(c, t). fgt t (Fin 0))
       (map (\<lambda>c. (c, py_sum (map amount (filter (\<lambda>e. category e = c) expenses)))) CATEGORIES)"

text \<open>\<open>current_year\<close> is \<open>datetime.now().year\<close>; the test \<open>if month:\<close> holds for a number
  that is given and not zero.\<close>

definition get_summary :: "nat \<Rightarrow> data_file \<Rightarrow> int option \<Rightarrow> string option \<Rightarrow> outcome" where
  "get_summary current_year f month cat =
     (let expenses = load_expenses f;
          by_month = (case month of None \<Rightarrow> False | Some m \<Rightarrow> m \<noteq> 0)
      in if expenses = [] then NoExpenses
         else
          (case (if given cat then filter_category expenses (the cat) else Inr expenses) of
             Inl out \<Rightarrow> out
           | Inr in_cat \<Rightarrow>
              (case (if by_month
                     then (if \<not> (1 \<le> the month \<and> the month \<le> 12) then None
                           else filter_month current_year (the month) in_cat)
                     else Some in_cat) of
                 None \<Rightarrow> Failed InvalidMonth
               | Some kept \<Rightarrow>
                  (let total = py_sum (map amount kept)
                   in if by_month \<and> given cat then TotalMonthCategory (the month) (the cat) total
                      else if by_month then TotalMonth (the month) total
                      else if given cat then TotalCategory (the cat) total
                      else TotalAll total (breakdown kept)))))"

definition delete_expense :: "data_file \<Rightarrow> int \<Rightarrow> outcome \<times> data_file" where
  "delete_expense f expense_id =
     (let expenses = load_expenses f;
          kept = filter (\<lambda>e. id_num e \<noteq> expense_id) expenses
      in if length kept = length expenses then (Failed (NotFound expense_id), f)
         else (Deleted, save_expenses kept))"

section \<open>The collection invariant and the records of the examples\<close>

text \<open>
  The invariant of the data model: the ids are pairwise distinct, every amount is greater
  than zero and every category is one of the fixed eight.
\<close>

definition invariant :: "expense list \<Rightarrow> bool" where
  "invariant expenses =
     (distinct (map id_num expenses)
      \<and> list_all (\<lambda>e. fgt (amount e) (Fin 0)) expenses
      \<and> list_all (\<lambda>e. List.member CATEGORIES (category e)) expenses)"

text \<open>The test that the month filter applies to one record whose date parses.\<close>

definition in_month_of_year :: "nat \<Rightarrow> int \<Rightarrow> expense \<Rightarrow> bool" where
  "in_month_of_year current_year m e =
     (case strptime_ymd (date e) of
        None \<Rightarrow> False
      | Some (y, mo, d) \<Rightarrow> int mo = m \<and> y = current_year)"

definition coffee :: expense where
  "coffee = \<lparr>id_num = 1, date = ''2024-01-05'', description = ''Coffee'',
              amount = Fin (9 / 2), category = ''Food''\<rparr>"

definition bus :: expense where
  "bus = \<lparr>id_num = 2, date = ''2024-01-07'', description = ''Bus'',
           amount = Fin (11 / 4), category = ''Transportation''\<rparr>"

definition old_rent :: expense where
  "old_rent = \<lparr>id_num = 3, date = ''2023-01-03'', description = ''Rent'',
                amount = Fin 900, category = ''Housing''\<rparr>"

definition example_file :: data_file where
  "example_file = Content [coffee, bus, old_rent]"

section \<open>Identifiers\<close>

lemma foldl_max_Max: "foldl max (a::int) xs = Max (set (a # xs))"
proof -
  have "(\<lambda>x s. max s x) = (max :: int \<Rightarrow> int \<Rightarrow> int)"
    by (auto simp: fun_eq_iff)
  then show ?thesis
    by (simp only: foldl_conv_fold Max.set_eq_fold)
qed

lemma get_next_id_Max:
  "get_next_id expenses =
     (if expenses = [] then 1 else Max (id_num ` set expenses) + 1)"
  by (cases expenses) (simp_all add: get_next_id_def foldl_max_Max del: Max_insert)

lemma get_next_id_greater: "e \<in> set expenses \<Longrightarrow> id_num e < get_next_id expenses"
proof -
  assume h: "e \<in> set expenses"
  then have "id_num e \<le> Max (id_num ` set expenses)" by simp
  moreover from h have "expenses \<noteq> []" by auto
  ultimately show ?thesis by (simp add: get_next_id_Max)
qed

section \<open>Concrete validations\<close>

lemma validate_food: "validate_category ''Food'' = Inr ''Food''"
  by (simp add: validate_category_def CATEGORIES_def)

lemma validate_transportation: "validate_category ''Transportation'' = Inr ''Transportation''"
  by (simp add: validate_category_def CATEGORIES_def)

lemma validate_nan: "validate_amount ''nan'' = Inr NaN"
  by code_simp

lemma validate_4_5: "validate_amount ''4.5'' = Inr (Fin (9 / 2))"
  by code_simp

lemma validate_2_75: "validate_amount ''2.75'' = Inr (Fin (11 / 4))"
  by code_simp

section \<open>Adding\<close>

lemma add_expense_valid:
  "validate_amount a = Inr v \<Longrightarrow> validate_category c = Inr c' \<Longrightarrow>
   add_expense today f d a c =
     (Added (get_next_id (load_expenses f)),
      Content (load_expenses f @ [\<lparr>id_num = get_next_id (load_expenses f), date = today,
                                   description = d, amount = v, category = c'\<rparr>]))"
  by (simp add: add_expense_def save_expenses_def Let_def)

lemma add_expense_Added:
  "add_expense today f d a c = (Added n, f') \<Longrightarrow> n = get_next_id (load_expenses f)"
  by (auto simp: add_expense_def Let_def split: sum.splits)

lemma add_first:
  "validate_amount a = Inr v \<Longrightarrow> validate_category c = Inr c' \<Longrightarrow>
   load_expenses f = [] \<Longrightarrow>
   add_expense today f d a c =
     (Added 1, Content [\<lparr>id_num = 1, date = today, description = d, amount = v,
                          category = c'\<rparr>])"
  by (simp add: add_expense_valid get_next_id_def)

text \<open>
  C10. The string \<open>nan\<close> is accepted by \<open>validate_amount\<close>: it parses as a float, the
  test \<open>amount <= 0\<close> is false for NaN, so the NaN is returned, and \<open>add_expense\<close> then
  persists a record whose amount is not greater than zero.
\<close>

theorem nan_amount_accepted:
  "py_float ''nan'' = Some NaN \<and> \<not> fle NaN (Fin 0) \<and> \<not> fgt NaN (Fin 0)
   \<and> validate_amount ''nan'' = Inr NaN
   \<and> add_expense today f d ''nan'' ''Food'' =
       (Added (get_next_id (load_expenses f)),
        Content (load_expenses f @ [\<lparr>id_num = get_next_id (load_expenses f), date = today,
                                     description = d, amount = NaN, category = ''Food''\<rparr>]))"
proof -
  have p: "py_float ''nan'' = Some NaN" by code_simp
  show ?thesis
    by (simp only: p validate_nan add_expense_valid [OF validate_nan validate_food]
        fle.simps fgt.simps simp_thms)
qed

section \<open>Assigned identifiers and the invariant\<close>

lemma delete_only:
  "id_num e = i \<Longrightarrow> delete_expense (Content [e]) i = (Deleted, Content [])"
  by (simp add: delete_expense_def load_expenses_def save_expenses_def)

lemma load_example: "load_expenses example_file = [coffee, bus, old_rent]"
  by (simp add: load_expenses_def example_file_def)

lemma example_ids: "id_num coffee = 1" "id_num bus = 2" "id_num old_rent = 3"
  by (simp_all add: coffee_def bus_def old_rent_def)

text \<open>
  C8. For every valid add (the amount and the category pass validation) the id of the new
  record is 1 when the store is empty and otherwise one more than the greatest id in the
  store; the record is appended with that id.
\<close>

theorem add_assigns_next_id:
  assumes "validate_amount a = Inr v" and "validate_category c = Inr c'"
  shows "add_expense today f d a c =
           (Added (if load_expenses f = [] then 1
                   else Max (id_num ` set (load_expenses f)) + 1),
            Content (load_expenses f @
              [\<lparr>id_num = (if load_expenses f = [] then 1
                          else Max (id_num ` set (load_expenses f)) + 1),
                date = today, description = d, amount = v, category = c'\<rparr>]))"
  using add_expense_valid [OF assms] by (simp only: get_next_id_Max)

text \<open>
  The theorem at two inputs: the first add into a missing file, and an add into the
  store of three records.
\<close>

theorem add_assigns_next_id_witness:
  "validate_amount ''2.75'' = Inr (Fin (11 / 4))
   \<and> validate_category ''Transportation'' = Inr ''Transportation''
   \<and> add_expense ''2024-02-01'' Absent ''Bus'' ''2.75'' ''Transportation'' =
       (Added 1, Content [\<lparr>id_num = 1, date = ''2024-02-01'', description = ''Bus'',
                            amount = Fin (11 / 4), category = ''Transportation''\<rparr>])
   \<and> add_expense ''2024-02-01'' example_file ''Bus'' ''2.75'' ''Transportation'' =
       (Added 4, Content [coffee, bus, old_rent,
                          \<lparr>id_num = 4, date = ''2024-02-01'', description = ''Bus'',
                            amount = Fin (11 / 4), category = ''Transportation''\<rparr>])"
proof -
  have e: "load_expenses Absent = []" by (simp add: load_expenses_def)
  have m: "Max (id_num ` set [coffee, bus, old_rent]) + 1 = 4"
    by (simp add: example_ids)
  have a: "add_expense ''2024-02-01'' Absent ''Bus'' ''2.75'' ''Transportation'' =
       (Added 1, Content [\<lparr>id_num = 1, date = ''2024-02-01'', description = ''Bus'',
                            amount = Fin (11 / 4), category = ''Transportation''\<rparr>])"
    using add_assigns_next_id [OF validate_2_75 validate_transportation,
        of "''2024-02-01''" Absent "''Bus''"]
    by (simp add: e)
  have b: "add_expense ''2024-02-01'' example_file ''Bus'' ''2.75'' ''Transportation'' =
       (Added 4, Content [coffee, bus, old_rent,
                          \<lparr>id_num = 4, date = ''2024-02-01'', description = ''Bus'',
                            amount = Fin (11 / 4), category = ''Transportation''\<rparr>])"
    using add_assigns_next_id [OF validate_2_75 validate_transportation,
        of "''2024-02-01''" example_file "''Bus''"] m
    by (simp add: load_example)
  show ?thesis
    using validate_2_75 validate_transportation a b by (intro conjI)
qed

text \<open>
  C1, as the code has it. \<open>get_next_id\<close> looks only at the ids that are in the store now:
  every add assigns an id greater than each of them, so an id is never assigned while a
  record with that id or a greater one is stored. Nothing remembers a deleted id.
\<close>

theorem add_assigns_greater_id:
  assumes "add_expense today f d a c = (Added n, f')"
  shows "\<forall>e \<in> set (load_expenses f). id_num e < n"
  using add_expense_Added [OF assms] get_next_id_greater by blast


text \<open>
  The theorem at the store of three records.
\<close>

theorem add_assigns_greater_id_witness:
  "add_expense ''2024-02-01'' example_file ''Bus'' ''2.75'' ''Transportation'' =
       (Added 4, Content [coffee, bus, old_rent,
                          \<lparr>id_num = 4, date = ''2024-02-01'', description = ''Bus'',
                            amount = Fin (11 / 4), category = ''Transportation''\<rparr>])
   \<and> id_num coffee < 4 \<and> id_num bus < 4 \<and> id_num old_rent < 4"
proof -
  have a: "add_expense ''2024-02-01'' example_file ''Bus'' ''2.75'' ''Transportation'' =
       (Added 4, Content [coffee, bus, old_rent,
                          \<lparr>id_num = 4, date = ''2024-02-01'', description = ''Bus'',
                            amount = Fin (11 / 4), category = ''Transportation''\<rparr>])"
    using add_expense_valid [OF validate_2_75 validate_transportation,
        of "''2024-02-01''" example_file "''Bus''"]
    by (simp add: load_example get_next_id_def example_ids)
  have i: "id_num coffee < 4" "id_num bus < 4" "id_num old_rent < 4"
    using add_assigns_greater_id [OF a] by (simp_all add: load_example)
  with a show ?thesis by (intro conjI)
qed

text \<open>
  C1 as stated fails: add into a missing file assigns id 1, delete removes that record,
  and the next add assigns id 1 again.
\<close>

theorem id_reused_after_deletion:
  "fst (add_expense ''2024-01-05'' Absent ''Coffee'' ''4.5'' ''Food'') = Added 1
   \<and> fst (delete_expense (snd (add_expense ''2024-01-05'' Absent ''Coffee'' ''4.5'' ''Food'')) 1)
       = Deleted
   \<and> fst (add_expense ''2024-01-06''
            (snd (delete_expense
                    (snd (add_expense ''2024-01-05'' Absent ''Coffee'' ''4.5'' ''Food'')) 1))
            ''Bus'' ''2.75'' ''Transportation'') = Added 1"
proof -
  have a1: "add_expense ''2024-01-05'' Absent ''Coffee'' ''4.5'' ''Food'' =
              (Added 1, Content [\<lparr>id_num = 1, date = ''2024-01-05'', description = ''Coffee'',
                                   amount = Fin (9 / 2), category = ''Food''\<rparr>])"
    by (rule add_first [OF validate_4_5 validate_food]) (simp add: load_expenses_def)
  have d1: "delete_expense (Content [\<lparr>id_num = 1, date = ''2024-01-05'',
              description = ''Coffee'', amount = Fin (9 / 2), category = ''Food''\<rparr>]) 1 =
              (Deleted, Content [])"
    by (rule delete_only) simp
  have a2: "add_expense ''2024-01-06'' (Content []) ''Bus'' ''2.75'' ''Transportation'' =
              (Added 1, Content [\<lparr>id_num = 1, date = ''2024-01-06'', description = ''Bus'',
                                   amount = Fin (11 / 4), category = ''Transportation''\<rparr>])"
    by (rule add_first [OF validate_2_75 validate_transportation]) (simp add: load_expenses_def)
  show ?thesis by (simp only: a1 d1 a2 fst_conv snd_conv simp_thms)
qed

text \<open>
  C9 fails on the amount: the empty store satisfies the invariant, \<open>add\<close> with the amount
  \<open>nan\<close> succeeds, and the store it writes holds an amount that is not greater than zero.
\<close>

theorem nan_breaks_invariant:
  "invariant (load_expenses Absent)
   \<and> add_expense ''2024-01-05'' Absent ''Coffee'' ''nan'' ''Food'' =
       (Added 1, Content [\<lparr>id_num = 1, date = ''2024-01-05'', description = ''Coffee'',
                            amount = NaN, category = ''Food''\<rparr>])
   \<and> \<not> invariant (load_expenses
                     (snd (add_expense ''2024-01-05'' Absent ''Coffee'' ''nan'' ''Food'')))"
proof -
  have a: "add_expense ''2024-01-05'' Absent ''Coffee'' ''nan'' ''Food'' =
             (Added 1, Content [\<lparr>id_num = 1, date = ''2024-01-05'', description = ''Coffee'',
                                  amount = NaN, category = ''Food''\<rparr>])"
    by (rule add_first [OF validate_nan validate_food]) (simp add: load_expenses_def)
  have i: "invariant (load_expenses Absent)"
    by (simp add: invariant_def load_expenses_def)
  have n: "\<not> invariant [\<lparr>id_num = 1, date = ''2024-01-05'', description = ''Coffee'',
                           amount = NaN, category = ''Food''\<rparr>]"
    by (simp add: invariant_def)
  show ?thesis using i n by (simp add: a load_expenses_def)
qed

section \<open>Failures leave the file alone\<close>

lemma validate_minus_5: "validate_amount ''-5'' = Inl InvalidAmount"
  by code_simp

lemma validate_abc: "validate_amount ''abc'' = Inl InvalidAmount"
  by code_simp

lemma validate_category_invalid:
  "c \<notin> set CATEGORIES \<Longrightarrow>
   validate_category c = Inl (InvalidCategory
     ''Invalid category. Available categories: Food, Transportation, Housing, Utilities, Entertainment, Shopping, Healthcare, Other'')"
  by (simp add: validate_category_def) (simp add: CATEGORIES_def)

lemma bogus_invalid: "''Bogus'' \<notin> set CATEGORIES"
  by (simp add: CATEGORIES_def)

lemma add_invalid_amount:
  "validate_amount a = Inl e \<Longrightarrow> add_expense today f d a c = (Failed e, f)"
  by (simp add: add_expense_def)

lemma add_invalid_category:
  "validate_amount a = Inr v \<Longrightarrow> validate_category c = Inl e \<Longrightarrow>
   add_expense today f d a c = (Failed e, f)"
  by (simp add: add_expense_def)

lemma update_loop_not_found:
  "\<forall>x \<in> set es. id_num x \<noteq> i \<Longrightarrow> update_loop es i d a c = Inl (NotFound i)"
  by (induction es) auto

lemma update_loop_skip:
  "\<forall>x \<in> set pre. id_num x \<noteq> i \<Longrightarrow> id_num e = i \<Longrightarrow>
   update_loop (pre @ e # post) i d a c =
     (case update_fields e d a c of Inl err \<Rightarrow> Inl err | Inr e' \<Rightarrow> Inr (pre @ e' # post))"
  by (induction pre) (auto split: sum.splits)

text \<open>
  C5. When add or update fails (with InvalidAmount, InvalidCategory or NotFound), the
  data file is exactly what it was before the operation.
\<close>

theorem failed_operation_keeps_file:
  assumes "r = add_expense today f d a c \<or> r = update_expense f i d' a' c'"
    and "fst r = Failed e"
  shows "snd r = f"
  using assms
  by (auto simp: add_expense_def update_expense_def Let_def split: sum.splits)

text \<open>
  The theorem at four failures on the store of three records: an amount that is not
  positive, a category outside the fixed set, an id that is absent, and an update whose
  description is assigned in memory before its amount fails to validate.
\<close>

theorem failed_operation_keeps_file_witness:
  "fst (add_expense ''2024-02-01'' example_file ''Tea'' ''-5'' ''Food'') = Failed InvalidAmount
   \<and> snd (add_expense ''2024-02-01'' example_file ''Tea'' ''-5'' ''Food'') = example_file
   \<and> fst (add_expense ''2024-02-01'' example_file ''Tea'' ''2.75'' ''Bogus'')
       = Failed (InvalidCategory
           ''Invalid category. Available categories: Food, Transportation, Housing, Utilities, Entertainment, Shopping, Healthcare, Other'')
   \<and> snd (add_expense ''2024-02-01'' example_file ''Tea'' ''2.75'' ''Bogus'') = example_file
   \<and> fst (update_expense example_file 7 None (Some ''3'') None) = Failed (NotFound 7)
   \<and> snd (update_expense example_file 7 None (Some ''3'') None) = example_file
   \<and> fst (update_expense example_file 2 (Some ''Tram'') (Some ''abc'') None)
       = Failed InvalidAmount
   \<and> snd (update_expense example_file 2 (Some ''Tram'') (Some ''abc'') None) = example_file"
proof -
  have a: "fst (add_expense ''2024-02-01'' example_file ''Tea'' ''-5'' ''Food'')
             = Failed InvalidAmount"
    by (simp add: add_invalid_amount [OF validate_minus_5])
  have b: "fst (add_expense ''2024-02-01'' example_file ''Tea'' ''2.75'' ''Bogus'')
       = Failed (InvalidCategory
           ''Invalid category. Available categories: Food, Transportation, Housing, Utilities, Entertainment, Shopping, Healthcare, Other'')"
    by (simp only: add_invalid_category [OF validate_2_75
          validate_category_invalid [OF bogus_invalid]] fst_conv)
  have l: "load_expenses example_file = [coffee, bus, old_rent]"
    by (simp add: load_expenses_def example_file_def)
  have ids: "id_num coffee = 1" "id_num bus = 2" "id_num old_rent = 3"
    by (simp_all add: coffee_def bus_def old_rent_def)
  have n: "fst (update_expense example_file 7 None (Some ''3'') None) = Failed (NotFound 7)"
    by (simp add: update_expense_def l update_loop_not_found ids)
  have f: "update_fields bus (Some ''Tram'') (Some ''abc'') None = Inl InvalidAmount"
    by (simp add: update_fields_def validate_abc)
  have u: "fst (update_expense example_file 2 (Some ''Tram'') (Some ''abc'') None)
             = Failed InvalidAmount"
    using update_loop_skip [of "[coffee]" 2 bus "[old_rent]" "Some ''Tram''" "Some ''abc''" None]
    by (simp add: update_expense_def l ids f)
  show ?thesis
    using a b n u
      failed_operation_keeps_file [OF disjI1 [OF refl] a]
      failed_operation_keeps_file [OF disjI1 [OF refl] b]
      failed_operation_keeps_file [OF disjI2 [OF refl] n]
      failed_operation_keeps_file [OF disjI2 [OF refl] u]
    by (intro conjI)
qed


section \<open>Updating\<close>

lemma update_fields_frame:
  assumes "update_fields e d a c = Inr e'"
  shows "id_num e' = id_num e \<and> date e' = date e
         \<and> description e' = (case d of None \<Rightarrow> description e | Some s \<Rightarrow> s)
         \<and> (case a of None \<Rightarrow> amount e' = amount e
                     | Some r \<Rightarrow> validate_amount r = Inr (amount e'))
         \<and> (case c of None \<Rightarrow> category e' = category e
                     | Some r \<Rightarrow> validate_category r = Inr (category e'))"
  using assms
  by (auto simp: update_fields_def Let_def split: option.splits sum.splits)

lemma update_loop_found:
  "update_loop es i d a c = Inr es' \<Longrightarrow>
   \<exists>pre e e' post. es = pre @ e # post \<and> es' = pre @ e' # post
      \<and> (\<forall>x \<in> set pre. id_num x \<noteq> i) \<and> id_num e = i
      \<and> update_fields e d a c = Inr e'"
proof (induction es arbitrary: es')
  case Nil
  then show ?case by simp
next
  case (Cons x xs)
  show ?case
  proof (cases "id_num x = i")
    case True
    with Cons.prems obtain e' where "update_fields x d a c = Inr e'" "es' = e' # xs"
      by (auto split: sum.splits)
    with True have "x # xs = [] @ x # xs \<and> es' = [] @ e' # xs
        \<and> (\<forall>y \<in> set []. id_num y \<noteq> i) \<and> id_num x = i \<and> update_fields x d a c = Inr e'"
      by simp
    then show ?thesis by blast
  next
    case False
    with Cons.prems obtain ys where ys: "update_loop xs i d a c = Inr ys" "es' = x # ys"
      by (auto split: sum.splits)
    from Cons.IH [OF ys(1)] obtain pre e e' post where
      p: "xs = pre @ e # post" "ys = pre @ e' # post" "\<forall>y \<in> set pre. id_num y \<noteq> i"
         "id_num e = i" "update_fields e d a c = Inr e'"
      by blast
    with False ys(2) have "x # xs = (x # pre) @ e # post \<and> es' = (x # pre) @ e' # post
        \<and> (\<forall>y \<in> set (x # pre). id_num y \<noteq> i) \<and> id_num e = i
        \<and> update_fields e d a c = Inr e'"
      by simp
    then show ?thesis by blast
  qed
qed

text \<open>
  C6. A successful update rewrites one record, the first one with the given id: its id
  and date stay, a field that was not given keeps its value, a given field takes the
  given (validated) value, and every other record of the store is unchanged.
\<close>

theorem update_changes_only_given_fields:
  assumes "update_expense f i d a c = (Updated j, f')"
  shows "\<exists>pre e e' post.
           load_expenses f = pre @ e # post \<and> f' = Content (pre @ e' # post)
           \<and> (\<forall>x \<in> set pre. id_num x \<noteq> i) \<and> id_num e = i
           \<and> id_num e' = id_num e \<and> date e' = date e
           \<and> description e' = (case d of None \<Rightarrow> description e | Some s \<Rightarrow> s)
           \<and> (case a of None \<Rightarrow> amount e' = amount e
                       | Some r \<Rightarrow> validate_amount r = Inr (amount e'))
           \<and> (case c of None \<Rightarrow> category e' = category e
                       | Some r \<Rightarrow> validate_category r = Inr (category e'))"
proof -
  from assms obtain es' where l: "update_loop (load_expenses f) i d a c = Inr es'"
    and f': "f' = Content es'"
    by (auto simp: update_expense_def save_expenses_def split: sum.splits)
  from update_loop_found [OF l] obtain pre e e' post where
    p: "load_expenses f = pre @ e # post" "es' = pre @ e' # post"
       "\<forall>x \<in> set pre. id_num x \<noteq> i" "id_num e = i" "update_fields e d a c = Inr e'"
    by blast
  from update_fields_frame [OF p(5)] p(1-4) f' show ?thesis by blast
qed


lemma validate_3_5: "validate_amount ''3.5'' = Inr (Fin (7 / 2))"
  by code_simp

text \<open>
  The theorem at an update of the amount alone of the second record.
\<close>

theorem update_changes_only_given_fields_witness:
  "update_expense example_file 2 None (Some ''3.5'') None =
     (Updated 2, Content [coffee, bus\<lparr>amount := Fin (7 / 2)\<rparr>, old_rent])
   \<and> (\<exists>pre e e' post.
         load_expenses example_file = pre @ e # post
         \<and> Content [coffee, bus\<lparr>amount := Fin (7 / 2)\<rparr>, old_rent] = Content (pre @ e' # post)
         \<and> (\<forall>x \<in> set pre. id_num x \<noteq> 2) \<and> id_num e = 2
         \<and> id_num e' = id_num e \<and> date e' = date e
         \<and> description e' = (case None of None \<Rightarrow> description e | Some s \<Rightarrow> s)
         \<and> (case Some ''3.5'' of None \<Rightarrow> amount e' = amount e
                     | Some r \<Rightarrow> validate_amount r = Inr (amount e'))
         \<and> (case None of None \<Rightarrow> category e' = category e
                     | Some r \<Rightarrow> validate_category r = Inr (category e')))"
proof -
  have l: "load_expenses example_file = [coffee, bus, old_rent]"
    by (simp add: load_expenses_def example_file_def)
  have ids: "id_num coffee = 1" "id_num bus = 2" "id_num old_rent = 3"
    by (simp_all add: coffee_def bus_def old_rent_def)
  have f: "update_fields bus None (Some ''3.5'') None = Inr (bus\<lparr>amount := Fin (7 / 2)\<rparr>)"
    by (simp add: update_fields_def validate_3_5)
  have u: "update_expense example_file 2 None (Some ''3.5'') None =
     (Updated 2, Content [coffee, bus\<lparr>amount := Fin (7 / 2)\<rparr>, old_rent])"
    using update_loop_skip [of "[coffee]" 2 bus "[old_rent]" None "Some ''3.5''" None]
    by (simp add: update_expense_def save_expenses_def l ids f)
  show ?thesis
    using u update_changes_only_given_fields [OF u] by (intro conjI)
qed

section \<open>Listing and summarising\<close>

lemma category_not_empty: "c \<in> set CATEGORIES \<Longrightarrow> c \<noteq> []"
  by (auto simp: CATEGORIES_def)

lemma filter_category_invalid:
  "c \<notin> set CATEGORIES \<Longrightarrow>
   filter_category expenses c = Inl (Failed (InvalidCategory
     ''Invalid category. Available categories: Food, Transportation, Housing, Utilities, Entertainment, Shopping, Healthcare, Other''))"
  by (simp add: filter_category_def validate_category_invalid)

lemma filter_category_valid:
  "c \<in> set CATEGORIES \<Longrightarrow>
   filter_category expenses c =
     (if filter (\<lambda>e. category e = c) expenses = [] then Inl (NoExpensesInCategory c)
      else Inr (filter (\<lambda>e. category e = c) expenses))"
  by (simp add: filter_category_def validate_category_def Let_def)

text \<open>
  C2, as the code has it. On a store that is not empty, a category that is given, not the
  empty string and outside the fixed set makes list fail with InvalidCategory, whose
  message enumerates the eight categories, before anything is filtered or rendered. On
  an empty store list prints that there are no expenses and validates nothing.
\<close>

theorem list_invalid_category:
  assumes "load_expenses f \<noteq> []" and "c \<noteq> []" and "c \<notin> set CATEGORIES"
  shows "list_expenses f (Some c) = Failed (InvalidCategory
     ''Invalid category. Available categories: Food, Transportation, Housing, Utilities, Entertainment, Shopping, Healthcare, Other'')"
  using assms by (simp add: list_expenses_def given_def filter_category_invalid)

text \<open>The theorem at the store of three records and the category Bogus.\<close>

theorem list_invalid_category_witness:
  "load_expenses example_file \<noteq> [] \<and> ''Bogus'' \<noteq> [] \<and> ''Bogus'' \<notin> set CATEGORIES
   \<and> list_expenses example_file (Some ''Bogus'') = Failed (InvalidCategory
     ''Invalid category. Available categories: Food, Transportation, Housing, Utilities, Entertainment, Shopping, Healthcare, Other'')"
proof -
  have l: "load_expenses example_file \<noteq> []"
    by (simp add: load_example)
  have n: "''Bogus'' \<noteq> []" by simp
  show ?thesis
    using l n bogus_invalid list_invalid_category [OF l n bogus_invalid] by (intro conjI)
qed

text \<open>
  C2 as stated fails on the empty store: list with the invalid category Bogus prints that
  there are no expenses, and no InvalidCategory.
\<close>

theorem list_empty_store_skips_validation:
  "''Bogus'' \<notin> set CATEGORIES \<and> load_expenses Absent = []
   \<and> list_expenses Absent (Some ''Bogus'') = NoExpenses"
  using bogus_invalid by (simp add: list_expenses_def load_expenses_def)

text \<open>
  C3, as the code has it. On a store that is not empty, with no category or with a valid
  category that some record has, a month below 0 or above 12 makes summary fail with
  InvalidMonth, and no total is printed. The empty store and the category are looked at
  before the month.
\<close>

theorem summary_invalid_month:
  assumes "load_expenses f \<noteq> []" and "m < 0 \<or> 12 < m"
    and "cat = None \<or> (\<exists>k. cat = Some k \<and> k \<in> set CATEGORIES
                           \<and> (\<exists>e \<in> set (load_expenses f). category e = k))"
  shows "get_summary cy f (Some m) cat = Failed InvalidMonth"
proof -
  from assms(2) have m: "m \<noteq> 0" "\<not> (1 \<le> m \<and> m \<le> 12)" by auto
  from assms(3) show ?thesis
  proof
    assume "cat = None"
    with assms(1) m show ?thesis
      by (simp add: get_summary_def given_def)
  next
    assume "\<exists>k. cat = Some k \<and> k \<in> set CATEGORIES
                \<and> (\<exists>e \<in> set (load_expenses f). category e = k)"
    then obtain k e where k: "cat = Some k" "k \<in> set CATEGORIES"
      "e \<in> set (load_expenses f)" "category e = k"
      by blast
    from k(3,4) have "filter (\<lambda>e. category e = k) (load_expenses f) \<noteq> []"
      by (auto simp: filter_empty_conv)
    with k(2) have "filter_category (load_expenses f) k
                     = Inr (filter (\<lambda>e. category e = k) (load_expenses f))"
      by (simp add: filter_category_valid)
    with assms(1) m k(1) category_not_empty [OF k(2)] show ?thesis
      by (simp add: get_summary_def given_def)
  qed
qed


lemma food_valid: "''Food'' \<in> set CATEGORIES"
  by (simp add: CATEGORIES_def)

lemma housing_valid: "''Housing'' \<in> set CATEGORIES"
  by (simp add: CATEGORIES_def)

lemma healthcare_valid: "''Healthcare'' \<in> set CATEGORIES"
  by (simp add: CATEGORIES_def)

lemma example_categories:
  "category coffee = ''Food''" "category bus = ''Transportation''"
  "category old_rent = ''Housing''"
  by (simp_all add: coffee_def bus_def old_rent_def)

text \<open>
  The theorem at the store of three records: month 13 with the category Food, which the
  first record has, and month -1 with no category.
\<close>

theorem summary_invalid_month_witness:
  "load_expenses example_file \<noteq> [] \<and> ((13::int) < 0 \<or> (12::int) < 13)
   \<and> (Some ''Food'' = None \<or> (\<exists>k. Some ''Food'' = Some k \<and> k \<in> set CATEGORIES
          \<and> (\<exists>e \<in> set (load_expenses example_file). category e = k)))
   \<and> get_summary 2024 example_file (Some 13) (Some ''Food'') = Failed InvalidMonth
   \<and> get_summary 2024 example_file (Some (- 1)) None = Failed InvalidMonth"
proof -
  have l: "load_expenses example_file \<noteq> []"
    by (simp add: load_example)
  have m: "(13::int) < 0 \<or> (12::int) < 13" by simp
  have m': "(- 1::int) < 0 \<or> (12::int) < - 1" by simp
  have c: "Some ''Food'' = None \<or> (\<exists>k. Some ''Food'' = Some k \<and> k \<in> set CATEGORIES
          \<and> (\<exists>e \<in> set (load_expenses example_file). category e = k))"
    using food_valid example_categories(1) by (simp add: load_example)
  have n: "None = None \<or> (\<exists>k. None = Some k \<and> k \<in> set CATEGORIES
          \<and> (\<exists>e \<in> set (load_expenses example_file). category e = k))"
    by simp
  show ?thesis
    using l m c summary_invalid_month [OF l m c, of 2024]
      summary_invalid_month [OF l m' n, of 2024]
    by (intro conjI)
qed

text \<open>
  C3 as stated fails where something is looked at before the month: on the empty store
  summary with month 13 prints that there are no expenses; with an invalid category it
  fails with InvalidCategory; with a valid category that no record has it prints that
  there are no expenses in that category.
\<close>

theorem summary_month_checked_last:
  "get_summary 2024 Absent (Some 13) None = NoExpenses
   \<and> get_summary 2024 example_file (Some 13) (Some ''Bogus'') = Failed (InvalidCategory
       ''Invalid category. Available categories: Food, Transportation, Housing, Utilities, Entertainment, Shopping, Healthcare, Other'')
   \<and> get_summary 2024 example_file (Some 13) (Some ''Healthcare'')
       = NoExpensesInCategory ''Healthcare''"
proof -
  have a: "get_summary 2024 Absent (Some 13) None = NoExpenses"
    by (simp add: get_summary_def load_expenses_def)
  have b: "get_summary 2024 example_file (Some 13) (Some ''Bogus'') = Failed (InvalidCategory
       ''Invalid category. Available categories: Food, Transportation, Housing, Utilities, Entertainment, Shopping, Healthcare, Other'')"
    by (simp add: get_summary_def load_example given_def
        filter_category_invalid [OF bogus_invalid])
  have c: "get_summary 2024 example_file (Some 13) (Some ''Healthcare'')
       = NoExpensesInCategory ''Healthcare''"
    by (simp add: get_summary_def load_example given_def
        filter_category_valid [OF healthcare_valid] example_categories)
  show ?thesis using a b c by (intro conjI)
qed

lemma filter_month_parsed:
  "\<forall>e \<in> set es. strptime_ymd (date e) \<noteq> None \<Longrightarrow>
   filter_month cy m es = Some (filter (in_month_of_year cy m) es)"
  by (induction es) (auto simp: in_month_of_year_def split: option.splits)

text \<open>
  C4. For a month from 1 to 12 and a store whose dates all parse, summary with that month
  and no category prints the total of exactly the records whose date is in that month of
  the current year; a record of the same month of another year is not in the total. On
  the empty store there is nothing to sum and summary prints that there are no expenses.
\<close>

theorem summary_month_of_current_year:
  assumes "1 \<le> m" and "m \<le> 12"
    and "\<forall>e \<in> set (load_expenses f). strptime_ymd (date e) \<noteq> None"
  shows "get_summary cy f (Some m) None =
           (if load_expenses f = [] then NoExpenses
            else TotalMonth m
                   (py_sum (map amount (filter (in_month_of_year cy m) (load_expenses f)))))"
  using assms filter_month_parsed [OF assms(3), of cy m]
  by (simp add: get_summary_def given_def)


lemma example_dates:
  "strptime_ymd (date coffee) = Some (2024, 1, 5)"
  "strptime_ymd (date bus) = Some (2024, 1, 7)"
  "strptime_ymd (date old_rent) = Some (2023, 1, 3)"
  by (simp_all add: coffee_def bus_def old_rent_def) code_simp+

lemma example_amounts:
  "amount coffee = Fin (9 / 2)" "amount bus = Fin (11 / 4)" "amount old_rent = Fin 900"
  by (simp_all add: coffee_def bus_def old_rent_def)

text \<open>
  The theorem at the store of three records, in 2024 and for January: the two records of
  January 2024 are summed, the record of January 2023 is left out.
\<close>

theorem summary_month_of_current_year_witness:
  "(1::int) \<le> 1 \<and> (1::int) \<le> 12
   \<and> load_expenses example_file = [coffee, bus, old_rent]
   \<and> strptime_ymd (date coffee) = Some (2024, 1, 5)
   \<and> strptime_ymd (date bus) = Some (2024, 1, 7)
   \<and> strptime_ymd (date old_rent) = Some (2023, 1, 3)
   \<and> filter (in_month_of_year 2024 1) (load_expenses example_file) = [coffee, bus]
   \<and> get_summary 2024 example_file (Some 1) None = TotalMonth 1 (Fin (29 / 4))"
proof -
  have a: "(1::int) \<le> 1" by simp
  have b: "(1::int) \<le> 12" by simp
  have p: "\<forall>e \<in> set (load_expenses example_file). strptime_ymd (date e) \<noteq> None"
    by (simp add: load_example example_dates)
  have k': "filter (in_month_of_year 2024 1) [coffee, bus, old_rent] = [coffee, bus]"
    by (simp add: in_month_of_year_def example_dates)
  have k: "filter (in_month_of_year 2024 1) (load_expenses example_file) = [coffee, bus]"
    by (simp only: load_example k')
  have t: "py_sum (map amount [coffee, bus]) = Fin (29 / 4)"
    by (simp add: py_sum_def example_amounts)
  have "get_summary 2024 example_file (Some 1) None = TotalMonth 1 (Fin (29 / 4))"
    using summary_month_of_current_year [OF a b p, of 2024]
    by (simp only: load_example k' t list.distinct if_False)
  with a b k load_example example_dates show ?thesis by (intro conjI)
qed

text \<open>
  C7, as the code has it. On a store that is not empty, summary with no filter prints the
  sum of all amounts; with a valid category that some record has it prints the sum of the
  amounts of exactly the records of that category; with a valid category that no record
  has it prints no total, but that there are no expenses in that category.
\<close>

theorem summary_totals:
  "(load_expenses f \<noteq> [] \<longrightarrow>
      get_summary cy f None None =
        TotalAll (py_sum (map amount (load_expenses f))) (breakdown (load_expenses f)))
   \<and> (c \<in> set CATEGORIES \<and> (\<exists>e \<in> set (load_expenses f). category e = c) \<longrightarrow>
      get_summary cy f None (Some c) =
        TotalCategory c (py_sum (map amount (filter (\<lambda>e. category e = c) (load_expenses f)))))
   \<and> (c \<in> set CATEGORIES \<and> load_expenses f \<noteq> []
        \<and> \<not> (\<exists>e \<in> set (load_expenses f). category e = c) \<longrightarrow>
      get_summary cy f None (Some c) = NoExpensesInCategory c)"
proof (intro conjI impI)
  assume "load_expenses f \<noteq> []"
  then show "get_summary cy f None None =
        TotalAll (py_sum (map amount (load_expenses f))) (breakdown (load_expenses f))"
    by (simp add: get_summary_def given_def Let_def)
next
  assume h: "c \<in> set CATEGORIES \<and> (\<exists>e \<in> set (load_expenses f). category e = c)"
  then have ne: "load_expenses f \<noteq> []" by auto
  from h have "filter (\<lambda>e. category e = c) (load_expenses f) \<noteq> []"
    by (auto simp: filter_empty_conv)
  with h ne category_not_empty [of c] show "get_summary cy f None (Some c) =
        TotalCategory c (py_sum (map amount (filter (\<lambda>e. category e = c) (load_expenses f))))"
    by (simp add: get_summary_def given_def filter_category_valid Let_def)
next
  assume h: "c \<in> set CATEGORIES \<and> load_expenses f \<noteq> []
        \<and> \<not> (\<exists>e \<in> set (load_expenses f). category e = c)"
  then have "filter (\<lambda>e. category e = c) (load_expenses f) = []"
    by (auto simp: filter_empty_conv)
  with h category_not_empty [of c] show "get_summary cy f None (Some c) = NoExpensesInCategory c"
    by (simp add: get_summary_def given_def filter_category_valid)
qed


text \<open>
  The theorem at the store of three records: the total of everything with its breakdown,
  the total of the category Food, and the category Healthcare, which no record has.
\<close>

theorem summary_totals_witness:
  "load_expenses example_file \<noteq> []
   \<and> ''Food'' \<in> set CATEGORIES
   \<and> (\<exists>e \<in> set (load_expenses example_file). category e = ''Food'')
   \<and> ''Healthcare'' \<in> set CATEGORIES
   \<and> \<not> (\<exists>e \<in> set (load_expenses example_file). category e = ''Healthcare'')
   \<and> get_summary 2024 example_file None None =
       TotalAll (Fin (3629 / 4))
         [(''Food'', Fin (9 / 2)), (''Transportation'', Fin (11 / 4)), (''Housing'', Fin 900)]
   \<and> get_summary 2024 example_file None (Some ''Food'') = TotalCategory ''Food'' (Fin (9 / 2))
   \<and> get_summary 2024 example_file None (Some ''Healthcare'')
       = NoExpensesInCategory ''Healthcare''"
proof -
  have l: "load_expenses example_file \<noteq> []"
    by (simp add: load_example)
  have e: "\<exists>e \<in> set (load_expenses example_file). category e = ''Food''"
    by (simp add: load_example example_categories)
  have n: "\<not> (\<exists>e \<in> set (load_expenses example_file). category e = ''Healthcare'')"
    by (simp add: load_example example_categories)
  have s: "py_sum (map amount [coffee, bus, old_rent]) = Fin (3629 / 4)"
    by (simp add: py_sum_def example_amounts)
  have b: "breakdown [coffee, bus, old_rent] =
     [(''Food'', Fin (9 / 2)), (''Transportation'', Fin (11 / 4)), (''Housing'', Fin 900)]"
    by (simp add: breakdown_def CATEGORIES_def example_categories py_sum_def example_amounts)
  have k: "filter (\<lambda>e. category e = ''Food'') [coffee, bus, old_rent] = [coffee]"
    by (simp add: example_categories)
  have t: "py_sum (map amount [coffee]) = Fin (9 / 2)"
    by (simp add: py_sum_def example_amounts)
  have 1: "get_summary 2024 example_file None None =
       TotalAll (Fin (3629 / 4))
         [(''Food'', Fin (9 / 2)), (''Transportation'', Fin (11 / 4)), (''Housing'', Fin 900)]"
    using summary_totals [where f = example_file and cy = 2024 and c = "''Food''", THEN conjunct1, rule_format, OF l]
    by (simp only: load_example s b)
  have 2: "get_summary 2024 example_file None (Some ''Food'') = TotalCategory ''Food'' (Fin (9 / 2))"
    using summary_totals [where f = example_file and cy = 2024 and c = "''Food''", THEN conjunct2, THEN conjunct1,
        rule_format, OF conjI [OF food_valid e]]
    by (simp only: load_example k t)
  have 3: "get_summary 2024 example_file None (Some ''Healthcare'')
       = NoExpensesInCategory ''Healthcare''"
    by (rule summary_totals [where f = example_file and cy = 2024 and c = "''Healthcare''", THEN conjunct2,
          THEN conjunct2, rule_format, OF conjI [OF healthcare_valid conjI [OF l n]]])
  show ?thesis
    using l food_valid e healthcare_valid n 1 2 3 by (intro conjI)
qed

text \<open>
  C7 as stated fails for a valid category that no record has: the store holds one record
  of the category Food, and summary with the category Housing prints that there are no
  expenses in that category and no total of 0.
\<close>

theorem summary_category_without_records:
  "''Housing'' \<in> set CATEGORIES
   \<and> get_summary 2024 (Content [coffee]) None (Some ''Housing'')
       = NoExpensesInCategory ''Housing''
   \<and> get_summary 2024 (Content [coffee]) None (Some ''Housing'')
       \<noteq> TotalCategory ''Housing'' (Fin 0)"
proof -
  have "get_summary 2024 (Content [coffee]) None (Some ''Housing'')
       = NoExpensesInCategory ''Housing''"
    by (simp add: get_summary_def load_expenses_def given_def
        filter_category_valid [OF housing_valid] example_categories)
  with housing_valid show ?thesis by simp
qed

section \<open>What the operations do preserve\<close>

text \<open>
  Apart from an amount that is NaN, the three operations keep the invariant: the ids stay
  distinct, the categories stay in the fixed set, and a validated amount that is not NaN
  is greater than zero.
\<close>

lemma validated_amount_positive:
  "validate_amount a = Inr v \<Longrightarrow> v \<noteq> NaN \<Longrightarrow> fgt v (Fin 0)"
  by (cases v) (auto simp: validate_amount_def split: option.splits if_splits)

lemma validated_category_member:
  "validate_category c = Inr c' \<Longrightarrow> List.member CATEGORIES c'"
  by (auto simp: validate_category_def split: if_splits)

lemma delete_preserves_invariant:
  assumes "invariant (load_expenses f)"
  shows "invariant (load_expenses (snd (delete_expense f i)))"
  using assms
  by (auto simp: delete_expense_def Let_def save_expenses_def load_expenses_def
      invariant_def distinct_map_filter list_all_iff)

lemma add_preserves_invariant:
  assumes "invariant (load_expenses f)"
    and "\<And>v. validate_amount a = Inr v \<Longrightarrow> v \<noteq> NaN"
  shows "invariant (load_expenses (snd (add_expense today f d a c)))"
proof (cases "validate_amount a")
  case (Inl e)
  with assms(1) show ?thesis by (simp add: add_invalid_amount)
next
  case (Inr v)
  show ?thesis
  proof (cases "validate_category c")
    case (Inl e)
    with Inr assms(1) show ?thesis by (simp add: add_invalid_category)
  next
    case (Inr c')
    have fresh: "get_next_id (load_expenses f) \<notin> id_num ` set (load_expenses f)"
      using get_next_id_greater [of _ "load_expenses f"] by fastforce
    from \<open>validate_amount a = Inr v\<close> assms(2) have "fgt v (Fin 0)"
      by (simp add: validated_amount_positive)
    with assms(1) fresh validated_category_member [OF Inr] show ?thesis
      by (simp add: add_expense_valid [OF \<open>validate_amount a = Inr v\<close> Inr]
          load_expenses_def [of "Content _"] invariant_def)
  qed
qed

lemma update_preserves_invariant:
  assumes "invariant (load_expenses f)"
    and "\<And>r v. a = Some r \<Longrightarrow> validate_amount r = Inr v \<Longrightarrow> v \<noteq> NaN"
  shows "invariant (load_expenses (snd (update_expense f i d a c)))"
proof (cases "update_loop (load_expenses f) i d a c")
  case (Inl e)
  with assms(1) show ?thesis by (simp add: update_expense_def)
next
  case (Inr es')
  from update_loop_found [OF Inr] obtain pre e e' post where
    p: "load_expenses f = pre @ e # post" "es' = pre @ e' # post"
       "update_fields e d a c = Inr e'"
    by blast
  note fr = update_fields_frame [OF p(3)]
  from assms(1) p(1) have ie: "fgt (amount e) (Fin 0)" "List.member CATEGORIES (category e)"
    by (simp_all add: invariant_def)
  have am: "fgt (amount e') (Fin 0)"
  proof (cases a)
    case None
    with fr ie show ?thesis by simp
  next
    case (Some r)
    with fr have "validate_amount r = Inr (amount e')" by simp
    with assms(2) [OF Some] show ?thesis by (simp add: validated_amount_positive)
  qed
  have ca: "List.member CATEGORIES (category e')"
  proof (cases c)
    case None
    with fr ie show ?thesis by simp
  next
    case (Some r)
    with fr have "validate_category r = Inr (category e')" by simp
    then show ?thesis by (rule validated_category_member)
  qed
  from fr have "map id_num (pre @ e' # post) = map id_num (pre @ e # post)" by simp
  with assms(1) p(1,2) am ca have "invariant es'"
    by (simp add: invariant_def)
  with Inr show ?thesis
    by (simp add: update_expense_def save_expenses_def load_expenses_def)
qed

end
